theory Spec2Isabelle
  imports Main
begin

section \<open>Voice assistant: command handling and the reminder store\<close>

text \<open>
  A shallow embedding of \<^verbatim>\<open>Assistent.py\<close>. Python strings are HOL strings, a character
  being a code point below 256 (Latin-1): the case mapping, the whitespace test and the two
  digit tests below are those of Python on these code points. Python integers are
  \<^typ>\<open>int\<close>; \<^verbatim>\<open>int\<close> on a string has the interpreter's default limit of 4300 digits. A
  \<^verbatim>\<open>datetime\<close> is the number of microseconds since the first instant the library can
  represent, a \<^verbatim>\<open>timedelta\<close> a number of microseconds, and both have the library's
  ranges, beyond which it raises \<^verbatim>\<open>OverflowError\<close>. Console output (\<^verbatim>\<open>print\<close>) and
  pauses (\<^verbatim>\<open>time.sleep\<close>) are not part of the modelled state.
\<close>

subsection \<open>Python string operations\<close>

text \<open>
  \<^verbatim>\<open>str.lower\<close> on one character: the letters A to Z, and the capital letters of Latin-1
  (0xC0 to 0xDE without the multiplication sign 0xD7), move up by 32.
\<close>

definition lower_char :: "char \<Rightarrow> char" where
  "lower_char c =
     (let n = (of_char c :: nat) in
      if (65 \<le> n \<and> n \<le> 90) \<or> (192 \<le> n \<and> n \<le> 214) \<or> (216 \<le> n \<and> n \<le> 222)
      then char_of (n + 32) else c)"

definition str_lower :: "string \<Rightarrow> string" where
  "str_lower s = map lower_char s"

text \<open>\<^verbatim>\<open>str.isspace\<close>, which \<^verbatim>\<open>strip\<close> and \<^verbatim>\<open>split\<close> use.\<close>

definition isspace :: "char \<Rightarrow> bool" where
  "isspace c =
     (let n = (of_char c :: nat) in
      (9 \<le> n \<and> n \<le> 13) \<or> (28 \<le> n \<and> n \<le> 32) \<or> n = 133 \<or> n = 160)"

text \<open>
  The decimal digits 0 to 9: what \<^verbatim>\<open>\d\<close> matches and what \<^verbatim>\<open>int\<close> reads.
\<close>

definition isdecimal :: "char \<Rightarrow> bool" where
  "isdecimal c = (let n = (of_char c :: nat) in 48 \<le> n \<and> n \<le> 57)"

text \<open>
  \<^verbatim>\<open>str.isdigit\<close> accepts more: the superscripts two, three and one (0xB2, 0xB3, 0xB9),
  which \<^verbatim>\<open>int\<close> does not read.
\<close>

definition isdigit :: "char \<Rightarrow> bool" where
  "isdigit c =
     (let n = (of_char c :: nat) in (48 \<le> n \<and> n \<le> 57) \<or> n = 178 \<or> n = 179 \<or> n = 185)"

definition str_strip :: "string \<Rightarrow> string" where
  "str_strip s = rev (dropWhile isspace (rev (dropWhile isspace s)))"

text \<open>\<^verbatim>\<open>s.startswith(p)\<close>\<close>

fun str_startswith :: "string \<Rightarrow> string \<Rightarrow> bool" where
  "str_startswith s [] = True"
| "str_startswith [] (p # ps) = False"
| "str_startswith (c # cs) (p # ps) = (if c = p then str_startswith cs ps else False)"

text \<open>\<^verbatim>\<open>p in s\<close> on strings: \<open>p\<close> occurs in \<open>s\<close> as a contiguous substring.\<close>

fun str_contains :: "string \<Rightarrow> string \<Rightarrow> bool" where
  "str_contains [] p = (p = [])"
| "str_contains (c # cs) p = (if str_startswith (c # cs) p then True else str_contains cs p)"

text \<open>
  \<^verbatim>\<open>s.replace(old, new)\<close>: the occurrences of \<open>old\<close> are found from left to right and do
  not overlap. An empty \<open>old\<close> matches between all characters.
\<close>

function str_replace :: "string \<Rightarrow> string \<Rightarrow> string \<Rightarrow> string" where
  "str_replace s old new =
     (if old = [] then new @ concat (map (\<lambda>c. c # new) s)
      else if s = [] then []
      else if str_startswith s old then new @ str_replace (drop (length old) s) old new
      else hd s # str_replace (tl s) old new)"
  by pat_completeness auto
termination
  by (relation "measure (\<lambda>(s, old, new). length s)") auto

text \<open>\<^verbatim>\<open>s.split()\<close>: the maximal runs of non-whitespace characters, in order.\<close>

fun split_from :: "string \<Rightarrow> string \<Rightarrow> string list" where
  "split_from cur [] = (if cur = [] then [] else [rev cur])"
| "split_from cur (c # cs) =
     (if isspace c then (if cur = [] then [] else [rev cur]) @ split_from [] cs
      else split_from (c # cur) cs)"

definition str_split :: "string \<Rightarrow> string list" where
  "str_split s = split_from [] s"

text \<open>\<^verbatim>\<open>sep.join(xs)\<close>\<close>

fun str_join :: "string \<Rightarrow> string list \<Rightarrow> string" where
  "str_join sep [] = []"
| "str_join sep [x] = x"
| "str_join sep (x # y # ys) = x @ sep @ str_join sep (y # ys)"

text \<open>\<^verbatim>\<open>xs.index(x)\<close>: the first position of \<open>x\<close>; \<open>None\<close> stands for the \<^verbatim>\<open>ValueError\<close>.\<close>

fun list_index :: "'a list \<Rightarrow> 'a \<Rightarrow> nat option" where
  "list_index [] x = None"
| "list_index (y # ys) x = (if y = x then Some 0 else map_option Suc (list_index ys x))"

text \<open>
  \<^verbatim>\<open>int(s)\<close> on a string of characters that \<^verbatim>\<open>str.isdigit\<close> accepts (the program
  gives it no other): the value of a non-empty string of at most 4300 decimal digits;
  \<open>None\<close> stands for the \<^verbatim>\<open>ValueError\<close> raised otherwise.
\<close>

definition digit_value :: "char \<Rightarrow> int" where
  "digit_value c = int (of_char c) - 48"

definition int_of_string :: "string \<Rightarrow> int option" where
  "int_of_string s =
     (if s \<noteq> [] \<and> list_all isdecimal s \<and> length s \<le> 4300
      then Some (foldl (\<lambda>a c. 10 * a + digit_value c) 0 s) else None)"

text \<open>\<^verbatim>\<open>str(n)\<close> for an integer, as an f-string renders it.\<close>

function str_nat :: "nat \<Rightarrow> string" where
  "str_nat n = (if n < 10 then [char_of (48 + n)] else str_nat (n div 10) @ [char_of (48 + n mod 10)])"
  by pat_completeness auto
termination
  by (relation "measure id") auto

definition str_int :: "int \<Rightarrow> string" where
  "str_int i = (if i < 0 then CHR ''-'' # str_nat (nat (- i)) else str_nat (nat i))"

subsection \<open>Regular expressions with backtracking\<close>

text \<open>
  The fragment of Python's \<^verbatim>\<open>re\<close> that the reminder pattern uses: literals, the classes
  \<^verbatim>\<open>\d\<close> and \<^verbatim>\<open>.\<close> under the greedy repetitions \<^verbatim>\<open>+\<close> and \<^verbatim>\<open>*\<close>, sequence, ordered
  alternation, the greedy option \<^verbatim>\<open>?\<close> and numbered capturing groups. A match attempt
  yields all the ways to match, in the order in which the backtracking matcher tries them:
  each is the capture list and the rest of the input. The first one is the match.
\<close>

datatype cls = Digit | AnyChar

fun in_cls :: "cls \<Rightarrow> char \<Rightarrow> bool" where
  "in_cls Digit c = isdecimal c"
| "in_cls AnyChar c = (c \<noteq> CHR 0x0A)"

datatype regex =
    Lit string
  | Plus cls
  | Star cls
  | Seq regex regex
  | Alt regex regex
  | Opt regex
  | Group nat regex

text \<open>The inputs left after a class has been repeated, longest repetition first.\<close>

fun reps :: "cls \<Rightarrow> string \<Rightarrow> string list" where
  "reps k [] = [[]]"
| "reps k (c # cs) = (if in_cls k c then reps k cs else []) @ [c # cs]"

type_synonym captures = "(nat \<times> string) list"

fun rmatch :: "regex \<Rightarrow> string \<Rightarrow> captures \<Rightarrow> (captures \<times> string) list" where
  "rmatch (Lit l) s caps = (if str_startswith s l then [(caps, drop (length l) s)] else [])"
| "rmatch (Plus k) s caps = map (\<lambda>r. (caps, r)) (butlast (reps k s))"
| "rmatch (Star k) s caps = map (\<lambda>r. (caps, r)) (reps k s)"
| "rmatch (Seq a b) s caps = concat (map (\<lambda>(caps', r). rmatch b r caps') (rmatch a s caps))"
| "rmatch (Alt a b) s caps = rmatch a s caps @ rmatch b s caps"
| "rmatch (Opt a) s caps = rmatch a s caps @ [(caps, s)]"
| "rmatch (Group n a) s caps =
     map (\<lambda>(caps', r). ((n, take (length s - length r) s) # caps', r)) (rmatch a s caps)"

text \<open>\<^verbatim>\<open>re.search\<close>: the match at the leftmost position that has one.\<close>

fun re_search :: "regex \<Rightarrow> string \<Rightarrow> captures option" where
  "re_search r [] = (case rmatch r [] [] of [] \<Rightarrow> None | (caps, rest) # more \<Rightarrow> Some caps)"
| "re_search r (c # cs) =
     (case rmatch r (c # cs) [] of [] \<Rightarrow> re_search r cs | (caps, rest) # more \<Rightarrow> Some caps)"

text \<open>\<^verbatim>\<open>m.group(n)\<close>; \<open>None\<close> when the group took no part in the match.\<close>

definition match_group :: "captures \<Rightarrow> nat \<Rightarrow> string option" where
  "match_group caps n = map_of caps n"

subsection \<open>State and collaborators\<close>

text \<open>
  The mutable state of the process: the module's list \<^verbatim>\<open>reminders\<close>, and the effects
  on the outside world in the order they happen: the texts handed to \<^verbatim>\<open>speak\<close>, the
  URLs handed to \<^verbatim>\<open>webbrowser.open\<close>, the HTTP requests sent with \<^verbatim>\<open>requests.get\<close>
  (URL and parameters) and the number of calls of \<^verbatim>\<open>listen\<close> so far.
\<close>

record state =
  reminders :: "(int \<times> string) list"
  spoken :: "string list"
  opened :: "string list"
  requests :: "(string \<times> (string \<times> string) list) list"
  listens :: nat

text \<open>What the recogniser does with one recording.\<close>

datatype recognition = WaitTimeout | Recognized string | UnknownValue | RequestError

text \<open>
  The configuration and the outside world, fixed for a run: the two API keys read from the
  environment, whether a microphone was found, what the n-th call of \<^verbatim>\<open>listen\<close> gets
  from the recogniser, what the weather and news services answer (\<open>Inl\<close> the text of the
  exception raised inside the \<^verbatim>\<open>try\<close>; \<open>Inr\<close> the fields read from the JSON, as an
  f-string renders them), and the library functions \<^verbatim>\<open>requests.utils.requote_uri\<close> and
  \<^verbatim>\<open>strftime\<close>.
\<close>

record env =
  OPENWEATHER_API_KEY :: string
  NEWSAPI_KEY :: string
  mic_present :: bool
  recognize :: "nat \<Rightarrow> recognition"
  weather_http :: "string \<Rightarrow> string + (string \<times> string \<times> string)"
  news_http :: "int \<Rightarrow> string + string list"
  requote_uri :: "string \<Rightarrow> string"
  strftime :: "string \<Rightarrow> int \<Rightarrow> string"

definition DEFAULT_CITY :: string where
  "DEFAULT_CITY = ''New Delhi,IN''"

definition WAKE_WORDS :: "string list" where
  "WAKE_WORDS = [''assistant'', ''hey assistant'', ''ok assistant'']"

datatype exn = WaitTimeoutError | TypeError | ValueError | OverflowError

text \<open>The state when the module has been loaded: \<^verbatim>\<open>reminders = []\<close>, nothing done yet.\<close>

definition initial_state :: state where
  "initial_state = \<lparr>reminders = [], spoken = [], opened = [], requests = [], listens = 0\<rparr>"

definition speak :: "string \<Rightarrow> state \<Rightarrow> state" where
  "speak text s = s\<lparr>spoken := spoken s @ [text]\<rparr>"

text \<open>
  \<^verbatim>\<open>listen\<close>: without a microphone the empty text; a timeout of
  \<^verbatim>\<open>recognizer.listen\<close> is raised outside the \<^verbatim>\<open>try\<close> and leaves the function as an
  exception; recognised text is lowercased; the two recogniser errors give the empty text.
\<close>

definition listen :: "env \<Rightarrow> state \<Rightarrow> (exn + string) \<times> state" where
  "listen e s =
     (let s' = s\<lparr>listens := Suc (listens s)\<rparr> in
      if mic_present e then
        (case recognize e (listens s) of
           WaitTimeout \<Rightarrow> (Inl WaitTimeoutError, s')
         | Recognized t \<Rightarrow> (Inr (str_lower t), s')
         | UnknownValue \<Rightarrow> (Inr [], s')
         | RequestError \<Rightarrow> (Inr [], s'))
      else (Inr [], s'))"

subsection \<open>Reminders\<close>

text \<open>
  The block of \<^verbatim>\<open>reminder_worker\<close> under the lock: the due reminders are collected and
  the others kept. \<open>now\<close> is the clock reading of this round.
\<close>

definition reminder_worker_locked :: "int \<Rightarrow> state \<Rightarrow> (int \<times> string) list \<times> state" where
  "reminder_worker_locked now s =
     (let due = filter (\<lambda>r. fst r \<le> now) (reminders s) in
      (due, s\<lparr>reminders := filter (\<lambda>r. fst r > now) (reminders s)\<rparr>))"

text \<open>One round of the worker's loop: every due reminder is spoken.\<close>

definition reminder_worker_round :: "int \<Rightarrow> state \<Rightarrow> state" where
  "reminder_worker_round now s =
     (case reminder_worker_locked now s of
        (due, s') \<Rightarrow> foldl (\<lambda>st r. speak (''Reminder: '' @ snd r) st) s' due)"

text \<open>The worker over the clock readings of its successive rounds.\<close>

fun reminder_worker :: "int list \<Rightarrow> state \<Rightarrow> state" where
  "reminder_worker [] s = s"
| "reminder_worker (now # later) s = reminder_worker later (reminder_worker_round now s)"

text \<open>
  \<^verbatim>\<open>datetime.max\<close>, the last microsecond of the year 9999, counted from
  \<^verbatim>\<open>datetime.min\<close>.
\<close>

definition datetime_max :: int where
  "datetime_max = 315537897599999999"

text \<open>
  \<^verbatim>\<open>timedelta(minutes=m)\<close> in microseconds; a \<^verbatim>\<open>timedelta\<close> holds at most 999999999
  days in either direction.
\<close>

definition timedelta_minutes :: "int \<Rightarrow> exn + int" where
  "timedelta_minutes minutes =
     (if \<bar>minutes div 1440\<bar> > 999999999 then Inl OverflowError else Inr (minutes * 60000000))"

text \<open>\<^verbatim>\<open>dt + delta\<close> on a \<^verbatim>\<open>datetime\<close> and a \<^verbatim>\<open>timedelta\<close>.\<close>

definition datetime_add :: "int \<Rightarrow> int \<Rightarrow> exn + int" where
  "datetime_add dt delta =
     (if 0 \<le> dt + delta \<and> dt + delta \<le> datetime_max then Inr (dt + delta) else Inl OverflowError)"

text \<open>
  \<^verbatim>\<open>set_reminder_in\<close>; \<open>now\<close> is what \<^verbatim>\<open>datetime.now()\<close> returns. The fire time is
  computed first, so an \<^verbatim>\<open>OverflowError\<close> leaves the state as it was.
\<close>

definition set_reminder_in :: "int \<Rightarrow> int \<Rightarrow> string \<Rightarrow> state \<Rightarrow> (exn + unit) \<times> state" where
  "set_reminder_in now minutes message s =
     (case timedelta_minutes minutes of
        Inl ex \<Rightarrow> (Inl ex, s)
      | Inr delta \<Rightarrow>
          (case datetime_add now delta of
             Inl ex \<Rightarrow> (Inl ex, s)
           | Inr when \<Rightarrow>
               (Inr (),
                speak (''Okay. I will remind you in '' @ str_int minutes @ '' minutes about ''
                         @ message @ ''.'')
                  (s\<lparr>reminders := reminders s @ [(when, message)]\<rparr>))))"

subsection \<open>Weather and news\<close>

definition get_weather :: "env \<Rightarrow> string \<Rightarrow> state \<Rightarrow> (string option \<times> string option) \<times> state" where
  "get_weather e city s =
     (if OPENWEATHER_API_KEY e = [] then
        ((None, Some ''OpenWeather API key not set. Set OPENWEATHER_API_KEY environment variable.''), s)
      else
        (let url = ''https://api.openweathermap.org/data/2.5/weather'';
             params = [(''q'', city), (''appid'', OPENWEATHER_API_KEY e), (''units'', ''metric'')];
             s' = s\<lparr>requests := requests s @ [(url, params)]\<rparr>
         in case weather_http e city of
              Inl err \<Rightarrow> ((None, Some err), s')
            | Inr (desc, temp, feels) \<Rightarrow>
                ((Some (desc @ '', temperature '' @ temp @ [CHR 0xB0] @ ''C, feels like '' @ feels
                        @ [CHR 0xB0] @ ''C''), None), s')))"

definition get_top_news :: "env \<Rightarrow> int \<Rightarrow> state \<Rightarrow> (string list option \<times> string option) \<times> state" where
  "get_top_news e count s =
     (if NEWSAPI_KEY e = [] then
        ((None, Some ''NewsAPI key not set. Set NEWSAPI_KEY environment variable.''), s)
      else
        (let url = ''https://newsapi.org/v2/top-headlines'';
             params = [(''apiKey'', NEWSAPI_KEY e), (''country'', ''in''), (''pageSize'', str_int count)];
             s' = s\<lparr>requests := requests s @ [(url, params)]\<rparr>
         in case news_http e count of
              Inl err \<Rightarrow> ((None, Some err), s')
            | Inr headlines \<Rightarrow> ((Some headlines, None), s')))"

text \<open>Python's truth test of an optional string: \<^verbatim>\<open>None\<close> and the empty string are false.\<close>

fun truthy :: "string option \<Rightarrow> bool" where
  "truthy None = False"
| "truthy (Some t) = (t \<noteq> [])"

text \<open>An optional string inside an f-string.\<close>

fun str_opt :: "string option \<Rightarrow> string" where
  "str_opt None = ''None''"
| "str_opt (Some t) = t"

subsection \<open>Command handling\<close>

text \<open>
  The pattern of the direct reminder command:
  \<^verbatim>\<open>remind me in (\d+) (minute|minutes|hour|hours) (?:to )?(.*)\<close>
\<close>

definition remind_pattern :: regex where
  "remind_pattern =
     Seq (Lit ''remind me in '')
    (Seq (Group 1 (Plus Digit))
    (Seq (Lit '' '')
    (Seq (Group 2 (Alt (Lit ''minute'') (Alt (Lit ''minutes'') (Alt (Lit ''hour'') (Lit ''hours'')))))
    (Seq (Lit '' '')
    (Seq (Opt (Lit ''to ''))
         (Group 3 (Star AnyChar)))))))"

text \<open>
  What \<^verbatim>\<open>handle_command\<close> computes from a match of the pattern before it calls
  \<^verbatim>\<open>set_reminder_in\<close>: the minutes and the message.
\<close>

definition remind_arguments :: "captures \<Rightarrow> exn + (int \<times> string)" where
  "remind_arguments m =
     (case match_group m 1 of
        None \<Rightarrow> Inl TypeError
      | Some digits \<Rightarrow>
          (case int_of_string digits of
             None \<Rightarrow> Inl ValueError
           | Some val \<Rightarrow>
               (let msg = (if truthy (match_group m 3) then str_opt (match_group m 3) else ''your task'')
                in case match_group m 2 of
                     None \<Rightarrow> Inl TypeError
                   | Some unit \<Rightarrow>
                       Inr (if str_contains unit ''hour'' then val * 60 else val, msg))))"

text \<open>The branch for a text that contains \<^verbatim>\<open>remind me in\<close>.\<close>

definition handle_remind_in :: "int \<Rightarrow> string \<Rightarrow> state \<Rightarrow> (exn + unit) \<times> state" where
  "handle_remind_in now text s =
     (case re_search remind_pattern text of
        None \<Rightarrow> (Inr (), speak ''Please say: remind me in X minutes to do Y.'' s)
      | Some m \<Rightarrow>
          (case remind_arguments m of
             Inl ex \<Rightarrow> (Inl ex, s)
           | Inr (minutes, msg) \<Rightarrow> set_reminder_in now minutes msg s))"

text \<open>
  The two-step dialog. The first \<^verbatim>\<open>listen\<close> stands before the \<^verbatim>\<open>try\<close>, so its
  exception leaves the function; everything raised after it (by \<^verbatim>\<open>int\<close>, by the second
  \<^verbatim>\<open>listen\<close>, by \<^verbatim>\<open>set_reminder_in\<close>) is caught and answered with the cancellation
  notice.
\<close>

definition handle_set_reminder :: "env \<Rightarrow> int \<Rightarrow> state \<Rightarrow> (exn + unit) \<times> state" where
  "handle_set_reminder e now s =
     (case listen e (speak ''For when should I set the reminder? Say in how many minutes.'' s) of
        (Inl ex, s1) \<Rightarrow> (Inl ex, s1)
      | (Inr reply, s1) \<Rightarrow>
          (case int_of_string (filter isdigit reply) of
             None \<Rightarrow> (Inr (), speak ''I couldn't parse the time. Reminder cancelled.'' s1)
           | Some mins \<Rightarrow>
               (case listen e (speak ''What should I remind you about?'' s1) of
                  (Inl ex, s2) \<Rightarrow> (Inr (), speak ''I couldn't parse the time. Reminder cancelled.'' s2)
                | (Inr msg, s2) \<Rightarrow>
                    (case set_reminder_in now mins (if msg = [] then ''your task'' else msg) s2 of
                       (Inl ex, s3) \<Rightarrow>
                         (Inr (), speak ''I couldn't parse the time. Reminder cancelled.'' s3)
                     | (Inr u, s3) \<Rightarrow> (Inr (), s3)))))"

text \<open>The city of a weather command.\<close>

definition weather_city :: "string \<Rightarrow> string" where
  "weather_city text =
     (let parts = str_split text in
      if ''in'' \<in> set parts then
        (case list_index parts ''in'' of
           Some idx \<Rightarrow> str_join '' '' (drop (idx + 1) parts)
         | None \<Rightarrow> DEFAULT_CITY)
      else DEFAULT_CITY)"

definition handle_weather :: "env \<Rightarrow> string \<Rightarrow> state \<Rightarrow> (exn + unit) \<times> state" where
  "handle_weather e text s =
     (let city = weather_city text in
      case get_weather e city s of
        ((weather_text, err), s1) \<Rightarrow>
          if truthy err then (Inr (), speak (''Sorry, I couldn't fetch weather. '' @ str_opt err) s1)
          else (Inr (), speak (''Weather in '' @ city @ '': '' @ str_opt weather_text) s1))"

text \<open>Iterating over \<^verbatim>\<open>None\<close> raises, after the introduction has been spoken.\<close>

definition handle_news :: "env \<Rightarrow> state \<Rightarrow> (exn + unit) \<times> state" where
  "handle_news e s =
     (case get_top_news e 5 s of
        ((headlines, err), s1) \<Rightarrow>
          if truthy err then (Inr (), speak (''Sorry, can't fetch news: '' @ str_opt err) s1)
          else
            (case headlines of
               None \<Rightarrow> (Inl TypeError, speak ''Here are the top headlines.'' s1)
             | Some hs \<Rightarrow> (Inr (), foldl (\<lambda>st h. speak h st) (speak ''Here are the top headlines.'' s1) hs)))"

definition search_query :: "string \<Rightarrow> string" where
  "search_query text =
     str_strip (str_replace (str_replace (str_replace text ''search for'' []) ''google'' []) ''search'' [])"

definition launch_search :: "env \<Rightarrow> string \<Rightarrow> state \<Rightarrow> state" where
  "launch_search e query s =
     (if query \<noteq> [] then
        (let s1 = speak (''Searching for '' @ query @ '' on the web.'') s
         in s1\<lparr>opened := opened s1 @ [''https://www.google.com/search?q='' @ requote_uri e query]\<rparr>)
      else s)"

definition handle_search :: "env \<Rightarrow> string \<Rightarrow> state \<Rightarrow> (exn + unit) \<times> state" where
  "handle_search e text s =
     (let query = search_query text in
      if query = [] then
        (case listen e (speak ''What should I search for?'' s) of
           (Inl ex, s1) \<Rightarrow> (Inl ex, s1)
         | (Inr heard, s1) \<Rightarrow> (Inr (), launch_search e heard s1))
      else (Inr (), launch_search e query s))"

text \<open>
  \<^verbatim>\<open>handle_command\<close>. \<open>now\<close> is what \<^verbatim>\<open>datetime.now()\<close> returns when the command reads
  the clock (every path reads it at most once).
\<close>

definition handle_command :: "env \<Rightarrow> int \<Rightarrow> string \<Rightarrow> state \<Rightarrow> (exn + unit) \<times> state" where
  "handle_command e now text0 s =
     (let text = str_strip (str_lower text0) in
      if text = [] then (Inr (), speak ''I didn't catch that. Please repeat.'' s)
      else if str_contains text ''remind me in'' then handle_remind_in now text s
      else if str_startswith text ''set reminder'' \<or> str_startswith text ''remind me to''
        then handle_set_reminder e now s
      else if str_contains text ''weather'' then handle_weather e text s
      else if str_contains text ''news'' \<or> str_contains text ''headlines'' then handle_news e s
      else if str_contains text ''time''
        then (Inr (), speak (''The time is '' @ strftime e ''%I:%M %p'' now) s)
      else if str_contains text ''date''
        then (Inr (), speak (''Today is '' @ strftime e ''%A, %B %d, %Y'' now) s)
      else if str_startswith text ''search for'' \<or> str_startswith text ''google''
              \<or> str_contains text ''search''
        then handle_search e text s
      else if list_ex (str_contains text) [''hello'', ''hi'', ''hey'']
        then (Inr (), speak ''Hello! How can I help you?'' s)
      else if str_contains text ''thank'' then (Inr (), speak ''You are welcome!'' s)
      else (Inr (), speak ''Sorry, I don't have a built-in action for that. I can search the web if you like. Say 'search' followed by your query.'' s))"

subsection \<open>The main loop\<close>

datatype control = Continue | Break

text \<open>
  What both paths of the loop do with the text of a command: the three exit phrases are
  looked for first, and only a command without them is handed to \<^verbatim>\<open>handle_command\<close>.
\<close>

definition run_command :: "env \<Rightarrow> int \<Rightarrow> string \<Rightarrow> state \<Rightarrow> (exn + control) \<times> state" where
  "run_command e now cmd s =
     (if cmd \<noteq> [] then
        (if list_ex (str_contains cmd) [''quit'', ''exit'', ''stop assistant'']
         then (Inr Break, speak ''Goodbye!'' s)
         else (case handle_command e now cmd s of
                 (Inl ex, s1) \<Rightarrow> (Inl ex, s1)
               | (Inr u, s1) \<Rightarrow> (Inr Continue, s1)))
      else (Inr Continue, speak ''I did not hear anything.'' s))"

text \<open>What \<^verbatim>\<open>input()\<close> does in one round: the user presses Enter, or interrupts.\<close>

datatype keyboard = Enter | KeyboardInterrupt

text \<open>
  One round of \<^verbatim>\<open>main_loop\<close>. An exception of the wake-word \<^verbatim>\<open>listen\<close> is caught and
  counts as silence; the two command \<^verbatim>\<open>listen\<close> calls are not guarded against a timeout.
\<close>

definition main_loop_round :: "env \<Rightarrow> int \<Rightarrow> keyboard \<Rightarrow> state \<Rightarrow> (exn + control) \<times> state" where
  "main_loop_round e now key s =
     (case listen e s of
        (r, s1) \<Rightarrow>
          (let heard = (case r of Inl ex \<Rightarrow> [] | Inr t \<Rightarrow> t) in
           if heard \<noteq> [] \<and> list_ex (str_contains heard) WAKE_WORDS then
             (case listen e (speak ''Yes?'' s1) of
                (Inl ex, s2) \<Rightarrow> (Inl ex, s2)
              | (Inr cmd, s2) \<Rightarrow> run_command e now cmd s2)
           else
             (case key of
                KeyboardInterrupt \<Rightarrow> (Inr Break, speak ''Shutting down. Bye.'' s1)
              | Enter \<Rightarrow>
                  (case listen e (speak ''Listening for your command.'' s1) of
                     (Inl ex, s2) \<Rightarrow> (Inl ex, s2)
                   | (Inr cmd, s2) \<Rightarrow> run_command e now cmd s2))))"

subsection \<open>A concrete environment\<close>

text \<open>
  An environment for worked examples: the two keys are given, a microphone is present, the
  recogniser delivers the listed outcomes in turn and times out afterwards, both services
  are unreachable, and the two library functions are the simplest ones.
\<close>

definition example_env :: "string \<Rightarrow> string \<Rightarrow> recognition list \<Rightarrow> env" where
  "example_env weather_key news_key heard =
     \<lparr>OPENWEATHER_API_KEY = weather_key, NEWSAPI_KEY = news_key, mic_present = True,
      recognize = (\<lambda>n. if n < length heard then heard ! n else WaitTimeout),
      weather_http = (\<lambda>city. Inl ''unreachable''),
      news_http = (\<lambda>count. Inl ''unreachable''),
      requote_uri = (\<lambda>q. q),
      strftime = (\<lambda>fmt t. fmt)\<rparr>"

section \<open>Properties\<close>

subsection \<open>The direct reminder command on two texts\<close>

lemma norm_two_hours: "str_strip (str_lower ''remind me in 2 hours'') = ''remind me in 2 hours''"
  by code_simp

lemma trigger_two_hours: "str_contains ''remind me in 2 hours'' ''remind me in''"
  by code_simp

lemma search_two_hours: "re_search remind_pattern ''remind me in 2 hours'' = None"
  by code_simp

lemma search_two_hours_space:
  "re_search remind_pattern ''remind me in 2 hours '' = Some [(3, []), (2, ''hours''), (1, ''2'')]"
  by code_simp

lemma arguments_two_hours_space:
  "remind_arguments [(3, []), (2, ''hours''), (1, ''2'')] = Inr (120, ''your task'')"
  by code_simp

text \<open>
  C2. The claim is that \<^verbatim>\<open>remind me in 2 hours\<close> sets a reminder of 120 minutes about
  \<^verbatim>\<open>your task\<close>. The pattern asks for a space after the unit, and the text has been
  stripped, so the pattern does not match: the command is answered with the usage hint and
  the state is otherwise unchanged. Only with a space left after the unit would the pattern
  match and give 120 minutes and the default message.
\<close>

theorem two_hours_without_message_is_refused:
  "handle_command e now ''remind me in 2 hours'' s =
     (Inr (), speak ''Please say: remind me in X minutes to do Y.'' s)
   \<and> re_search remind_pattern ''remind me in 2 hours '' =
       Some [(3, []), (2, ''hours''), (1, ''2'')]
   \<and> remind_arguments [(3, []), (2, ''hours''), (1, ''2'')] = Inr (120, ''your task'')"
  by (simp add: handle_command_def handle_remind_in_def Let_def
      norm_two_hours trigger_two_hours search_two_hours search_two_hours_space
      arguments_two_hours_space del: str_contains.simps re_search.simps One_nat_def)

lemma norm_oven:
  "str_strip (str_lower ''remind me in 10 minutes to check the oven'') =
     ''remind me in 10 minutes to check the oven''"
  by code_simp

lemma trigger_oven: "str_contains ''remind me in 10 minutes to check the oven'' ''remind me in''"
  by code_simp

lemma search_oven:
  "re_search remind_pattern ''remind me in 10 minutes to check the oven'' =
     Some [(3, ''check the oven''), (2, ''minutes''), (1, ''10'')]"
  by code_simp

lemma arguments_oven:
  "remind_arguments [(3, ''check the oven''), (2, ''minutes''), (1, ''10'')] =
     Inr (10, ''check the oven'')"
  by code_simp

lemma branch_oven:
  "handle_remind_in now ''remind me in 10 minutes to check the oven'' s =
     set_reminder_in now 10 ''check the oven'' s"
  by (simp add: handle_remind_in_def search_oven arguments_oven del: One_nat_def re_search.simps)

text \<open>
  C3. \<^verbatim>\<open>remind me in 10 minutes to check the oven\<close> is matched with the groups
  \<^verbatim>\<open>10\<close>, \<^verbatim>\<open>minutes\<close> and \<^verbatim>\<open>check the oven\<close>; the arguments computed from them are
  10 minutes and the message \<^verbatim>\<open>check the oven\<close>, and what the command does is what
  \<^verbatim>\<open>set_reminder_in\<close> does with exactly these.
\<close>

theorem ten_minutes_check_the_oven:
  "re_search remind_pattern ''remind me in 10 minutes to check the oven'' =
     Some [(3, ''check the oven''), (2, ''minutes''), (1, ''10'')]
   \<and> remind_arguments [(3, ''check the oven''), (2, ''minutes''), (1, ''10'')] =
     Inr (10, ''check the oven'')
   \<and> handle_command e now ''remind me in 10 minutes to check the oven'' s =
     set_reminder_in now 10 ''check the oven'' s"
  by (simp add: handle_command_def Let_def norm_oven trigger_oven branch_oven search_oven
      arguments_oven del: str_contains.simps re_search.simps One_nat_def)

subsection \<open>What leaves the list of reminders alone\<close>

lemma reminders_speak [simp]: "reminders (speak t s) = reminders s"
  by (simp add: speak_def)

lemma set_reminder_in_cases:
  "set_reminder_in now minutes msg s = (Inl OverflowError, s)
   \<or> set_reminder_in now minutes msg s =
       (Inr (), speak (''Okay. I will remind you in '' @ str_int minutes @ '' minutes about ''
                         @ msg @ ''.'')
                  (s\<lparr>reminders := reminders s @ [(now + minutes * 60000000, msg)]\<rparr>))"
  by (simp add: set_reminder_in_def timedelta_minutes_def datetime_add_def)

lemma set_reminder_in_representable:
  assumes "0 \<le> minutes" and "0 \<le> now" and "now + minutes * 60000000 \<le> datetime_max"
  shows "set_reminder_in now minutes msg s =
       (Inr (), speak (''Okay. I will remind you in '' @ str_int minutes @ '' minutes about ''
                         @ msg @ ''.'')
                  (s\<lparr>reminders := reminders s @ [(now + minutes * 60000000, msg)]\<rparr>))"
proof -
  have "minutes * 60000000 \<le> 315537897599999999"
    using assms(2,3) by (simp add: datetime_max_def)
  then have "minutes < 1440 * 1000000000" by simp
  then have "minutes div 1440 < 1000000000"
    by arith
  moreover have "0 \<le> minutes div 1440"
    using assms(1) by arith
  ultimately have "\<bar>minutes div 1440\<bar> \<le> 999999999" by simp
  moreover have "0 \<le> now + minutes * 60000000"
    using assms(1,2) by simp
  ultimately show ?thesis
    using assms(3) by (simp add: set_reminder_in_def timedelta_minutes_def datetime_add_def)
qed

lemma reminders_set_reminder_in:
  "reminders (snd (set_reminder_in now minutes msg s)) =
     (if fst (set_reminder_in now minutes msg s) = Inr ()
      then reminders s @ [(now + minutes * 60000000, msg)] else reminders s)"
  using set_reminder_in_cases [of now minutes msg s] by auto

lemma reminders_listen [simp]: "reminders (snd (listen e s)) = reminders s"
  by (simp add: listen_def Let_def split: recognition.splits)

lemma reminders_foldl_speak [simp]: "reminders (foldl (\<lambda>st h. speak (f h) st) s hs) = reminders s"
  by (induction hs arbitrary: s) simp_all

lemma reminders_get_weather [simp]: "reminders (snd (get_weather e city s)) = reminders s"
  by (simp add: get_weather_def Let_def split: sum.splits prod.splits)

lemma reminders_get_top_news [simp]: "reminders (snd (get_top_news e n s)) = reminders s"
  by (simp add: get_top_news_def Let_def split: sum.splits)

lemma reminders_launch_search [simp]: "reminders (launch_search e q s) = reminders s"
  by (simp add: launch_search_def Let_def)

lemma reminders_handle_weather [simp]: "reminders (snd (handle_weather e text s)) = reminders s"
proof -
  obtain w err s1 where g: "get_weather e (weather_city text) s = ((w, err), s1)"
    by (metis prod.exhaust)
  then have "reminders s1 = reminders s"
    using reminders_get_weather [of e "weather_city text" s] by simp
  with g show ?thesis by (simp add: handle_weather_def Let_def)
qed

lemma reminders_handle_news [simp]: "reminders (snd (handle_news e s)) = reminders s"
proof -
  obtain hs err s1 where g: "get_top_news e 5 s = ((hs, err), s1)"
    by (metis prod.exhaust)
  then have "reminders s1 = reminders s"
    using reminders_get_top_news [of e 5 s] by simp
  with g show ?thesis
    using reminders_foldl_speak [of "\<lambda>h. h"]
    by (simp add: handle_news_def split: option.splits)
qed

lemma reminders_handle_search [simp]: "reminders (snd (handle_search e text s)) = reminders s"
proof -
  obtain r s1 where l: "listen e (speak ''What should I search for?'' s) = (r, s1)"
    by (metis prod.exhaust)
  then have "reminders s1 = reminders s"
    using reminders_listen [of e "speak ''What should I search for?'' s"] by simp
  with l show ?thesis
    by (simp add: handle_search_def Let_def split: sum.splits)
qed

subsection \<open>A scheduled reminder is delivered once\<close>

text \<open>
  C1, as amended. Let \<open>m\<close> be a positive number of minutes whose fire time
  \<open>now + m minutes\<close> is still a \<^verbatim>\<open>datetime\<close> (not after the year 9999). Then
  \<^verbatim>\<open>set_reminder_in\<close> returns normally and appends the reminder \<open>(now + m minutes, msg)\<close>
  to the store, and its fire time lies in the future. A round of the worker takes this
  reminder out exactly when the clock reading of the round has reached the fire time,
  whatever else is pending, and a second round at the same reading takes out nothing. In
  particular, starting from a store with no pending reminder: a round before the fire time
  takes nothing out and leaves the state as it is; a round at or after the fire time takes
  out exactly this reminder and leaves the store empty; no later round takes anything out,
  and two rounds at the same reading speak the reminder once.
\<close>

theorem scheduled_reminder_fires_once:
  assumes "0 < m" and "0 \<le> now" and "now + m * 60000000 \<le> datetime_max"
    and "s1 = snd (set_reminder_in now m msg s)"
  shows "fst (set_reminder_in now m msg s) = Inr ()
    \<and> now < now + m * 60000000
    \<and> reminders s1 = reminders s @ [(now + m * 60000000, msg)]
    \<and> (\<forall>t. fst (reminder_worker_locked t s1) =
             fst (reminder_worker_locked t s)
               @ (if now + m * 60000000 \<le> t then [(now + m * 60000000, msg)] else [])
           \<and> reminders (snd (reminder_worker_locked t s1)) =
             reminders (snd (reminder_worker_locked t s))
               @ (if now + m * 60000000 \<le> t then [] else [(now + m * 60000000, msg)])
           \<and> fst (reminder_worker_locked t (snd (reminder_worker_locked t s1))) = [])
    \<and> (reminders s = [] \<longrightarrow>
         (\<forall>t. t < now + m * 60000000 \<longrightarrow> reminder_worker_locked t s1 = ([], s1))
       \<and> (\<forall>t. now + m * 60000000 \<le> t \<longrightarrow>
            fst (reminder_worker_locked t s1) = [(now + m * 60000000, msg)]
          \<and> reminders (snd (reminder_worker_locked t s1)) = []
          \<and> (\<forall>t'. fst (reminder_worker_locked t' (snd (reminder_worker_locked t s1))) = [])
          \<and> spoken (reminder_worker_round t (reminder_worker_round t s1))
              = spoken s1 @ [''Reminder: '' @ msg]))"
proof -
  let ?at = "now + m * 60000000"
  have ok: "set_reminder_in now m msg s =
       (Inr (), speak (''Okay. I will remind you in '' @ str_int m @ '' minutes about ''
                         @ msg @ ''.'')
                  (s\<lparr>reminders := reminders s @ [(?at, msg)]\<rparr>))"
    using assms(1-3) by (intro set_reminder_in_representable) simp_all
  have returns: "fst (set_reminder_in now m msg s) = Inr ()"
    using ok by simp
  have future: "now < ?at" using assms(1) by simp
  have pending: "reminders s1 = reminders s @ [(?at, msg)]"
    using ok assms(4) by simp
  have general: "fst (reminder_worker_locked t s1) =
             fst (reminder_worker_locked t s) @ (if ?at \<le> t then [(?at, msg)] else [])
           \<and> reminders (snd (reminder_worker_locked t s1)) =
             reminders (snd (reminder_worker_locked t s)) @ (if ?at \<le> t then [] else [(?at, msg)])
           \<and> fst (reminder_worker_locked t (snd (reminder_worker_locked t s1))) = []" for t
    using pending by (simp add: reminder_worker_locked_def Let_def filter_empty_conv)
  have early: "reminder_worker_locked t s1 = ([], s1)" if "reminders s = []" "t < ?at" for t
    using that pending by (simp add: reminder_worker_locked_def Let_def)
  have late: "fst (reminder_worker_locked t s1) = [(?at, msg)]
        \<and> reminders (snd (reminder_worker_locked t s1)) = []
        \<and> (\<forall>t'. fst (reminder_worker_locked t' (snd (reminder_worker_locked t s1))) = [])
        \<and> spoken (reminder_worker_round t (reminder_worker_round t s1)) = spoken s1 @ [''Reminder: '' @ msg]"
    if "reminders s = []" "?at \<le> t" for t
    using that pending by (simp add: reminder_worker_locked_def reminder_worker_round_def Let_def speak_def)
  show ?thesis using returns future pending general early late by blast
qed

text \<open>The same for one minute and the message \<^verbatim>\<open>tea\<close>, scheduled at clock reading 0.\<close>

theorem scheduled_reminder_fires_once_witness:
  "(0::int) < 1 \<and> (0::int) \<le> 0 \<and> (0::int) + 1 * 60000000 \<le> datetime_max
   \<and> reminders initial_state = []
   \<and> fst (set_reminder_in 0 1 ''tea'' initial_state) = Inr ()
   \<and> reminders (snd (set_reminder_in 0 1 ''tea'' initial_state)) = [(60000000, ''tea'')]
   \<and> reminder_worker_locked 59999999 (snd (set_reminder_in 0 1 ''tea'' initial_state))
       = ([], snd (set_reminder_in 0 1 ''tea'' initial_state))
   \<and> fst (reminder_worker_locked 60000000 (snd (set_reminder_in 0 1 ''tea'' initial_state)))
       = [(60000000, ''tea'')]
   \<and> fst (reminder_worker_locked 60000000
        (snd (reminder_worker_locked 60000000 (snd (set_reminder_in 0 1 ''tea'' initial_state))))) = []"
proof -
  have a: "(0::int) < 1" and a': "(0::int) \<le> 0" by simp_all
  have r: "(0::int) + 1 * 60000000 \<le> datetime_max" by (simp add: datetime_max_def)
  have b: "reminders initial_state = []" by (simp add: initial_state_def)
  have t: "(0::int) + 1 * 60000000 = 60000000" by simp
  note th = scheduled_reminder_fires_once [OF a a' r refl, of "''tea''" initial_state, unfolded t]
  have lt: "(59999999::int) < 60000000" and le: "(60000000::int) \<le> 60000000" by simp_all
  have returns: "fst (set_reminder_in 0 1 ''tea'' initial_state) = Inr ()"
    using th by blast
  have pending: "reminders (snd (set_reminder_in 0 1 ''tea'' initial_state)) = [(60000000, ''tea'')]"
    using th [THEN conjunct2, THEN conjunct2, THEN conjunct1] b by simp
  have early: "reminder_worker_locked 59999999 (snd (set_reminder_in 0 1 ''tea'' initial_state))
       = ([], snd (set_reminder_in 0 1 ''tea'' initial_state))"
    using th b lt by blast
  have late: "fst (reminder_worker_locked 60000000 (snd (set_reminder_in 0 1 ''tea'' initial_state)))
       = [(60000000, ''tea'')]
     \<and> fst (reminder_worker_locked 60000000
        (snd (reminder_worker_locked 60000000 (snd (set_reminder_in 0 1 ''tea'' initial_state))))) = []"
    using th b le by blast
  show ?thesis using a a' r b returns pending early late by blast
qed

lemma norm_far_future:
  "str_strip (str_lower ''remind me in 5000000000 minutes to x'') =
     ''remind me in 5000000000 minutes to x''"
  by code_simp

lemma trigger_far_future: "str_contains ''remind me in 5000000000 minutes to x'' ''remind me in''"
  by code_simp

lemma search_far_future:
  "re_search remind_pattern ''remind me in 5000000000 minutes to x'' =
     Some [(3, ''x''), (2, ''minutes''), (1, ''5000000000'')]"
  by code_simp

lemma arguments_far_future:
  "remind_arguments [(3, ''x''), (2, ''minutes''), (1, ''5000000000'')] = Inr (5000000000, ''x'')"
  by code_simp

lemma command_far_future:
  "handle_command e now ''remind me in 5000000000 minutes to x'' s =
     set_reminder_in now 5000000000 ''x'' s"
  by (simp add: handle_command_def handle_remind_in_def Let_def norm_far_future trigger_far_future
      search_far_future arguments_far_future del: str_contains.simps re_search.simps One_nat_def)

lemma overflow_far_future:
  "set_reminder_in 63929347200000000 5000000000 msg s = (Inl OverflowError, s)"
  by (simp add: set_reminder_in_def timedelta_minutes_def datetime_add_def datetime_max_def)

text \<open>
  Against C1 as stated: on 4 November 2026 (clock reading 63929347200000000), five thousand
  million minutes lead past the year 9999. \<^verbatim>\<open>set_reminder_in\<close> raises and nothing is
  put into the store; the command \<^verbatim>\<open>remind me in 5000000000 minutes to x\<close> gets there.
\<close>

theorem far_future_reminder_is_not_scheduled:
  "(0::int) < 5000000000
   \<and> set_reminder_in 63929347200000000 5000000000 ''x'' initial_state =
       (Inl OverflowError, initial_state)
   \<and> reminders initial_state = []
   \<and> handle_command (example_env [] [] []) 63929347200000000
        ''remind me in 5000000000 minutes to x'' initial_state =
       (Inl OverflowError, initial_state)"
  by (simp add: command_far_future overflow_far_future initial_state_def)

subsection \<open>The minutes that reach the store\<close>

lemma digit_value_nonneg: "isdecimal c \<Longrightarrow> 0 \<le> digit_value c"
  by (simp add: isdecimal_def digit_value_def Let_def)

lemma foldl_digits_nonneg:
  "list_all isdecimal ds \<Longrightarrow> 0 \<le> a \<Longrightarrow> 0 \<le> foldl (\<lambda>a c. 10 * a + digit_value c) a ds"
  by (induction ds arbitrary: a) (simp_all add: digit_value_nonneg)

lemma int_of_string_nonneg: "int_of_string ds = Some v \<Longrightarrow> 0 \<le> v"
  by (auto simp: int_of_string_def foldl_digits_nonneg split: if_splits)

lemma remind_arguments_nonneg: "remind_arguments m = Inr (minutes, msg) \<Longrightarrow> 0 \<le> minutes"
  by (auto simp: remind_arguments_def Let_def split: option.splits if_splits
      dest: int_of_string_nonneg)

lemma set_reminder_in_reminders:
  "reminders (snd (set_reminder_in now minutes msg s)) = reminders s
   \<or> reminders (snd (set_reminder_in now minutes msg s)) =
       reminders s @ [(now + minutes * 60000000, msg)]"
  using set_reminder_in_cases [of now minutes msg s] by auto

lemma handle_remind_in_reminders:
  "reminders (snd (handle_remind_in now text s)) = reminders s
   \<or> (\<exists>minutes msg. 0 \<le> minutes \<and>
         reminders (snd (handle_remind_in now text s)) =
           reminders s @ [(now + minutes * 60000000, msg)])"
proof (cases "re_search remind_pattern text")
  case None
  then show ?thesis by (simp add: handle_remind_in_def)
next
  case (Some m)
  show ?thesis
  proof (cases "remind_arguments m")
    case (Inl ex)
    with Some show ?thesis by (simp add: handle_remind_in_def)
  next
    case (Inr a)
    obtain minutes msg where a: "a = (minutes, msg)" by (cases a)
    from Inr a have nn: "0 \<le> minutes" using remind_arguments_nonneg by blast
    have "handle_remind_in now text s = set_reminder_in now minutes msg s"
      using Some Inr a by (simp add: handle_remind_in_def)
    with nn set_reminder_in_reminders [of now minutes msg s] show ?thesis by auto
  qed
qed

lemma handle_set_reminder_reminders:
  "reminders (snd (handle_set_reminder e now s)) = reminders s
   \<or> (\<exists>minutes msg. 0 \<le> minutes \<and>
         reminders (snd (handle_set_reminder e now s)) =
           reminders s @ [(now + minutes * 60000000, msg)])"
proof -
  let ?p = "speak ''For when should I set the reminder? Say in how many minutes.'' s"
  obtain r s1 where l1: "listen e ?p = (r, s1)" by (metis prod.exhaust)
  then have r1: "reminders s1 = reminders s" using reminders_listen [of e ?p] by simp
  show ?thesis
  proof (cases r)
    case (Inl ex)
    with l1 r1 show ?thesis by (simp add: handle_set_reminder_def)
  next
    case (Inr reply)
    show ?thesis
    proof (cases "int_of_string (filter isdigit reply)")
      case None
      with l1 r1 Inr show ?thesis by (simp add: handle_set_reminder_def)
    next
      case (Some mins)
      then have nn: "0 \<le> mins" by (rule int_of_string_nonneg)
      let ?q = "speak ''What should I remind you about?'' s1"
      obtain r' s2 where l2: "listen e ?q = (r', s2)" by (metis prod.exhaust)
      then have r2: "reminders s2 = reminders s" using reminders_listen [of e ?q] r1 by simp
      show ?thesis
      proof (cases r')
        case (Inl ex)
        with l1 l2 r2 Inr Some show ?thesis by (simp add: handle_set_reminder_def)
      next
        case (Inr msg)
        let ?msg = "if msg = [] then ''your task'' else msg"
        have run: "handle_set_reminder e now s =
            (case set_reminder_in now mins ?msg s2 of
               (Inl ex, s3) \<Rightarrow> (Inr (), speak ''I couldn't parse the time. Reminder cancelled.'' s3)
             | (Inr u, s3) \<Rightarrow> (Inr (), s3))"
          using l1 l2 \<open>r = Inr reply\<close> Some Inr by (simp add: handle_set_reminder_def)
        from set_reminder_in_cases [of now mins ?msg s2]
        have "reminders (snd (handle_set_reminder e now s)) = reminders s
            \<or> reminders (snd (handle_set_reminder e now s)) =
                reminders s @ [(now + mins * 60000000, ?msg)]"
          unfolding run using r2 by (auto simp: speak_def)
        with nn show ?thesis by blast
      qed
    qed
  qed
qed

text \<open>
  C4, as amended. The claim asks for a strictly positive number of minutes at every call of
  \<^verbatim>\<open>set_reminder_in\<close>; the code only guarantees that it is not negative. Whatever the
  command and whatever is heard in the dialog, \<^verbatim>\<open>handle_command\<close> either leaves the list
  of reminders as it is, or appends one reminder whose fire time is the clock reading plus
  a number of minutes that is at least zero.
\<close>

theorem command_minutes_never_negative:
  "reminders (snd (handle_command e now text s)) = reminders s
   \<or> (\<exists>minutes msg. 0 \<le> minutes \<and>
         reminders (snd (handle_command e now text s)) =
           reminders s @ [(now + minutes * 60000000, msg)])"
  unfolding handle_command_def Let_def
  using handle_remind_in_reminders [of now "str_strip (str_lower text)" s]
    handle_set_reminder_reminders [of e now s]
  by (simp del: str_contains.simps str_startswith.simps)

lemma norm_zero:
  "str_strip (str_lower ''remind me in 0 minutes to x'') = ''remind me in 0 minutes to x''"
  by code_simp

lemma trigger_zero: "str_contains ''remind me in 0 minutes to x'' ''remind me in''"
  by code_simp

lemma search_zero:
  "re_search remind_pattern ''remind me in 0 minutes to x'' =
     Some [(3, ''x''), (2, ''minutes''), (1, ''0'')]"
  by code_simp

lemma arguments_zero:
  "remind_arguments [(3, ''x''), (2, ''minutes''), (1, ''0'')] = Inr (0, ''x'')"
  by code_simp

lemma command_zero:
  "handle_command e now ''remind me in 0 minutes to x'' s = set_reminder_in now 0 ''x'' s"
  by (simp add: handle_command_def handle_remind_in_def Let_def norm_zero trigger_zero
      search_zero arguments_zero del: str_contains.simps re_search.simps One_nat_def)

lemma schedule_zero:
  "fst (set_reminder_in 100 0 ''x'' initial_state) = Inr ()
   \<and> reminders (snd (set_reminder_in 100 0 ''x'' initial_state)) = [(100, ''x'')]"
  using set_reminder_in_representable [of 0 100 "''x''" initial_state]
  by (simp add: datetime_max_def initial_state_def)

text \<open>
  Against C4 as stated: \<^verbatim>\<open>remind me in 0 minutes to x\<close> reaches \<^verbatim>\<open>set_reminder_in\<close>
  with zero minutes, and the reminder is due at once.
\<close>

theorem zero_minutes_reach_the_store:
  "handle_command (example_env [] [] []) 100 ''remind me in 0 minutes to x'' initial_state =
     set_reminder_in 100 0 ''x'' initial_state
   \<and> fst (set_reminder_in 100 0 ''x'' initial_state) = Inr ()
   \<and> reminders (snd (set_reminder_in 100 0 ''x'' initial_state)) = [(100, ''x'')]
   \<and> \<not> (0::int) < 0"
  using schedule_zero by (simp add: command_zero)

subsection \<open>The city of a weather command\<close>

lemma split_weather_in: "str_split ''weather in'' = [''weather'', ''in'']"
  by code_simp

lemma norm_weather_in: "str_strip (str_lower ''weather in'') = ''weather in''"
  by code_simp

lemma rules_weather_in:
  "\<not> str_contains ''weather in'' ''remind me in''"
  "\<not> str_startswith ''weather in'' ''set reminder''"
  "\<not> str_startswith ''weather in'' ''remind me to''"
  "str_contains ''weather in'' ''weather''"
  by code_simp+

lemma city_weather_in: "weather_city ''weather in'' = []"
  by code_simp

lemma command_weather_in: "handle_command e now ''weather in'' s = handle_weather e ''weather in'' s"
  by (simp add: handle_command_def Let_def norm_weather_in rules_weather_in
      del: str_contains.simps str_startswith.simps)

lemma city_weather: "weather_city ''weather'' = DEFAULT_CITY"
  by code_simp

text \<open>
  C5. The claim is that a weather command ending in \<^verbatim>\<open>in\<close>, such as \<^verbatim>\<open>weather in\<close>, is
  looked up for the default city. The city taken from \<^verbatim>\<open>weather in\<close> is the empty
  string, and it is handed to \<^verbatim>\<open>get_weather\<close> as it is: with a key, the request that is
  sent asks for the empty city. The default city is used only when there is no token
  \<^verbatim>\<open>in\<close> at all.
\<close>

theorem weather_in_asks_for_the_empty_city:
  "last (str_split ''weather in'') = ''in''
   \<and> weather_city ''weather in'' = []
   \<and> handle_command e now ''weather in'' s = handle_weather e ''weather in'' s
   \<and> requests (snd (handle_command (example_env ''key'' [] []) 0 ''weather in'' initial_state)) =
       [(''https://api.openweathermap.org/data/2.5/weather'',
         [(''q'', []), (''appid'', ''key''), (''units'', ''metric'')])]
   \<and> weather_city ''weather'' = DEFAULT_CITY"
  by (simp add: split_weather_in city_weather_in command_weather_in city_weather
      handle_weather_def get_weather_def example_env_def initial_state_def speak_def Let_def)

subsection \<open>The two-step dialog\<close>

lemma startswith_nonempty: "str_startswith t (p # ps) \<Longrightarrow> t \<noteq> []"
  by (cases t) simp_all

lemma contains_nonempty: "str_contains t (p # ps) \<Longrightarrow> t \<noteq> []"
  by (cases t) simp_all

lemma int_of_string_empty: "int_of_string [] = None"
  by (simp add: int_of_string_def)

text \<open>
  C6, as amended. Let a command open the two-step dialog, and let the first follow-up
  \<^verbatim>\<open>listen\<close> return a text. If no number can be read from it (it has no digit, as the
  empty text, or \<^verbatim>\<open>int\<close> refuses its digits), the dialog is cancelled with the spoken
  notice and no reminder is added. If a number is read and the second follow-up
  \<^verbatim>\<open>listen\<close> returns the empty text, the dialog goes on with the message
  \<^verbatim>\<open>your task\<close>: the reminder is added when its fire time is still a \<^verbatim>\<open>datetime\<close>, and
  only when \<^verbatim>\<open>set_reminder_in\<close> raises is the dialog cancelled, as it is when the second
  \<^verbatim>\<open>listen\<close> raises.
\<close>

theorem dialog_cancels_without_minutes_only:
  assumes "t = str_strip (str_lower text)"
    and "\<not> str_contains t ''remind me in''"
    and "str_startswith t ''set reminder'' \<or> str_startswith t ''remind me to''"
    and "fst (listen e (speak ''For when should I set the reminder? Say in how many minutes.'' s)) = Inr reply"
    and "s1 = snd (listen e (speak ''For when should I set the reminder? Say in how many minutes.'' s))"
    and "s2 = snd (listen e (speak ''What should I remind you about?'' s1))"
  shows "(int_of_string (filter isdigit reply) = None \<longrightarrow>
            handle_command e now text s =
              (Inr (), speak ''I couldn't parse the time. Reminder cancelled.'' s1)
          \<and> reminders (snd (handle_command e now text s)) = reminders s)
       \<and> (filter isdigit reply = [] \<longrightarrow> int_of_string (filter isdigit reply) = None)
       \<and> (\<forall>mins. int_of_string (filter isdigit reply) = Some mins \<longrightarrow>
            fst (listen e (speak ''What should I remind you about?'' s1)) = Inr [] \<longrightarrow>
              handle_command e now text s =
                (case set_reminder_in now mins ''your task'' s2 of
                   (Inl ex, s3) \<Rightarrow>
                     (Inr (), speak ''I couldn't parse the time. Reminder cancelled.'' s3)
                 | (Inr u, s3) \<Rightarrow> (Inr (), s3))
            \<and> (0 \<le> now \<and> now + mins * 60000000 \<le> datetime_max \<longrightarrow>
                 handle_command e now text s =
                   (Inr (), snd (set_reminder_in now mins ''your task'' s2))
               \<and> reminders (snd (handle_command e now text s)) =
                   reminders s @ [(now + mins * 60000000, ''your task'')])
            \<and> (fst (set_reminder_in now mins ''your task'' s2) \<noteq> Inr () \<longrightarrow>
                 handle_command e now text s =
                   (Inr (), speak ''I couldn't parse the time. Reminder cancelled.'' s2)
               \<and> reminders (snd (handle_command e now text s)) = reminders s))
       \<and> (\<forall>mins ex. int_of_string (filter isdigit reply) = Some mins \<longrightarrow>
            fst (listen e (speak ''What should I remind you about?'' s1)) = Inl ex \<longrightarrow>
              handle_command e now text s =
                (Inr (), speak ''I couldn't parse the time. Reminder cancelled.'' s2)
            \<and> reminders (snd (handle_command e now text s)) = reminders s)"
proof -
  let ?p = "speak ''For when should I set the reminder? Say in how many minutes.'' s"
  let ?q = "speak ''What should I remind you about?'' s1"
  let ?cancel = "''I couldn't parse the time. Reminder cancelled.''"
  have ne: "t \<noteq> []" using assms(3) startswith_nonempty by blast
  have cmd: "handle_command e now text s = handle_set_reminder e now s"
    using assms(1-3) ne
    by (simp add: handle_command_def Let_def del: str_contains.simps str_startswith.simps)
  have l1: "listen e ?p = (Inr reply, s1)"
    using assms(4,5) by (simp add: prod_eq_iff)
  have r1: "reminders s1 = reminders s"
    using assms(5) by simp
  have r2: "reminders s2 = reminders s"
    using assms(6) r1 by simp
  have none: "handle_set_reminder e now s = (Inr (), speak ?cancel s1)
      \<and> reminders (snd (handle_set_reminder e now s)) = reminders s"
    if "int_of_string (filter isdigit reply) = None"
    using that l1 r1 by (simp add: handle_set_reminder_def)
  have empty: "int_of_string (filter isdigit reply) = None" if "filter isdigit reply = []"
    using that by (simp add: int_of_string_empty)
  have some: "handle_set_reminder e now s =
        (case set_reminder_in now mins ''your task'' s2 of
           (Inl ex, s3) \<Rightarrow> (Inr (), speak ?cancel s3)
         | (Inr u, s3) \<Rightarrow> (Inr (), s3))"
    if "int_of_string (filter isdigit reply) = Some mins" and "fst (listen e ?q) = Inr []" for mins
  proof -
    have l2: "listen e ?q = (Inr [], s2)"
      using that(2) assms(6) by (simp add: prod_eq_iff)
    show ?thesis using l1 l2 that(1) by (simp add: handle_set_reminder_def)
  qed
  have fits: "handle_set_reminder e now s = (Inr (), snd (set_reminder_in now mins ''your task'' s2))
      \<and> reminders (snd (handle_set_reminder e now s)) =
          reminders s @ [(now + mins * 60000000, ''your task'')]"
    if m: "int_of_string (filter isdigit reply) = Some mins" and "fst (listen e ?q) = Inr []"
      and "0 \<le> now" and "now + mins * 60000000 \<le> datetime_max" for mins
  proof -
    have "0 \<le> mins" using m by (rule int_of_string_nonneg)
    from set_reminder_in_representable [OF this that(3,4), of "''your task''" s2]
    show ?thesis using some [OF that(1,2)] r2 by simp
  qed
  have fails: "handle_set_reminder e now s = (Inr (), speak ?cancel s2)
      \<and> reminders (snd (handle_set_reminder e now s)) = reminders s"
    if "int_of_string (filter isdigit reply) = Some mins" and "fst (listen e ?q) = Inr []"
      and "fst (set_reminder_in now mins ''your task'' s2) \<noteq> Inr ()" for mins
    using set_reminder_in_cases [of now mins "''your task''" s2] some [OF that(1,2)] that(3) r2
    by auto
  have raised: "handle_set_reminder e now s = (Inr (), speak ?cancel s2)
      \<and> reminders (snd (handle_set_reminder e now s)) = reminders s"
    if "int_of_string (filter isdigit reply) = Some mins" and "fst (listen e ?q) = Inl ex" for mins ex
  proof -
    have l2: "listen e ?q = (Inl ex, s2)"
      using that(2) assms(6) by (simp add: prod_eq_iff)
    show ?thesis using l1 l2 that(1) r2 by (simp add: handle_set_reminder_def)
  qed
  show ?thesis
    unfolding cmd using none empty some fits fails raised by blast
qed

lemma norm_set_reminder: "str_strip (str_lower ''set reminder'') = ''set reminder''"
  by code_simp

lemma rules_set_reminder:
  "\<not> str_contains ''set reminder'' ''remind me in''"
  "str_startswith ''set reminder'' ''set reminder''"
  by code_simp+

text \<open>The command \<^verbatim>\<open>set reminder\<close> when nothing is understood at the first question.\<close>
theorem dialog_cancels_without_minutes_only_witness:
  "handle_command (example_env [] [] [UnknownValue]) 0 ''set reminder'' initial_state =
     (Inr (), speak ''I couldn't parse the time. Reminder cancelled.''
        (snd (listen (example_env [] [] [UnknownValue])
           (speak ''For when should I set the reminder? Say in how many minutes.'' initial_state))))
   \<and> reminders (snd (handle_command (example_env [] [] [UnknownValue]) 0 ''set reminder'' initial_state))
       = reminders initial_state"
proof -
  let ?e = "example_env [] [] [UnknownValue]"
  have l: "fst (listen ?e (speak ''For when should I set the reminder? Say in how many minutes.''
      initial_state)) = Inr []"
    by (simp add: listen_def example_env_def initial_state_def speak_def Let_def)
  have d: "int_of_string (filter isdigit []) = None" by (simp add: int_of_string_empty)
  from dialog_cancels_without_minutes_only
    [OF norm_set_reminder [symmetric] rules_set_reminder(1) disjI1 [OF rules_set_reminder(2)] l refl refl,
     of 0] d
  show ?thesis by blast
qed

text \<open>
  Against C6 as stated: after \<^verbatim>\<open>set reminder\<close> and the answer \<^verbatim>\<open>5\<close>, the second
  \<^verbatim>\<open>listen\<close> returns the empty text, and a reminder about \<^verbatim>\<open>your task\<close> is in the
  store.
\<close>

theorem silent_message_still_schedules:
  "fst (listen (example_env [] [] [Recognized ''5'', UnknownValue])
          (speak ''What should I remind you about?''
             (snd (listen (example_env [] [] [Recognized ''5'', UnknownValue])
                (speak ''For when should I set the reminder? Say in how many minutes.''
                   initial_state))))) = Inr []
   \<and> reminders (snd (handle_command (example_env [] [] [Recognized ''5'', UnknownValue]) 0
        ''set reminder'' initial_state)) = [(300000000, ''your task'')]"
  by code_simp

subsection \<open>Exit phrases\<close>

lemma startswith_append: "str_startswith t (a @ b) \<Longrightarrow> str_startswith t a"
  by (induction t a rule: str_startswith.induct) (simp_all split: if_splits)

lemma startswith_contains: "str_startswith t p \<Longrightarrow> str_contains t p"
  by (cases t; cases p) (auto split: if_splits)

lemma search_for_contains_search: "str_startswith t ''search for'' \<Longrightarrow> str_contains t ''search''"
proof -
  assume "str_startswith t ''search for''"
  then have "str_startswith t (''search'' @ '' for'')" by simp
  then have "str_startswith t ''search''" by (rule startswith_append)
  then show ?thesis by (rule startswith_contains)
qed

text \<open>
  C7, as amended. The exit phrases are looked for before any rule of \<^verbatim>\<open>handle_command\<close>,
  not after small talk: a non-empty command that contains one of them ends the loop with
  the farewell and is never handed to \<^verbatim>\<open>handle_command\<close>; every other non-empty command
  is handed to \<^verbatim>\<open>handle_command\<close> and does not end the loop. \<^verbatim>\<open>handle_command\<close> itself
  has no exit rule; on the lowercased and stripped text it takes the first rule that
  matches, in the order reminder with duration, reminder dialog, weather, news, time, date,
  search, greeting, thanks, and the fallback when none does.
\<close>

theorem exit_phrases_are_checked_first:
  assumes "cmd \<noteq> []" and "t = str_strip (str_lower cmd)"
  shows "(list_ex (str_contains cmd) [''quit'', ''exit'', ''stop assistant''] \<longrightarrow>
            run_command e now cmd s = (Inr Break, speak ''Goodbye!'' s))
       \<and> (\<not> list_ex (str_contains cmd) [''quit'', ''exit'', ''stop assistant''] \<longrightarrow>
            run_command e now cmd s =
              (case handle_command e now cmd s of
                 (Inl ex, s1) \<Rightarrow> (Inl ex, s1)
               | (Inr u, s1) \<Rightarrow> (Inr Continue, s1)))
       \<and> (fst (run_command e now cmd s) = Inr Break \<longleftrightarrow>
            list_ex (str_contains cmd) [''quit'', ''exit'', ''stop assistant''])
       \<and> (t \<noteq> [] \<longrightarrow>
            (str_contains t ''remind me in'' \<longrightarrow>
               handle_command e now cmd s = handle_remind_in now t s)
          \<and> (\<not> str_contains t ''remind me in'' \<longrightarrow>
              (str_startswith t ''set reminder'' \<or> str_startswith t ''remind me to'' \<longrightarrow>
                 handle_command e now cmd s = handle_set_reminder e now s)
            \<and> (\<not> str_startswith t ''set reminder'' \<and> \<not> str_startswith t ''remind me to'' \<longrightarrow>
                (str_contains t ''weather'' \<longrightarrow> handle_command e now cmd s = handle_weather e t s)
              \<and> (\<not> str_contains t ''weather'' \<longrightarrow>
                  (str_contains t ''news'' \<or> str_contains t ''headlines'' \<longrightarrow>
                     handle_command e now cmd s = handle_news e s)
                \<and> (\<not> str_contains t ''news'' \<and> \<not> str_contains t ''headlines'' \<longrightarrow>
                    (str_contains t ''time'' \<longrightarrow>
                       handle_command e now cmd s =
                         (Inr (), speak (''The time is '' @ strftime e ''%I:%M %p'' now) s))
                  \<and> (\<not> str_contains t ''time'' \<longrightarrow>
                      (str_contains t ''date'' \<longrightarrow>
                         handle_command e now cmd s =
                           (Inr (), speak (''Today is '' @ strftime e ''%A, %B %d, %Y'' now) s))
                    \<and> (\<not> str_contains t ''date'' \<longrightarrow>
                        (str_startswith t ''google'' \<or> str_contains t ''search'' \<longrightarrow>
                           handle_command e now cmd s = handle_search e t s)
                      \<and> (\<not> str_startswith t ''google'' \<and> \<not> str_contains t ''search'' \<longrightarrow>
                          (list_ex (str_contains t) [''hello'', ''hi'', ''hey''] \<longrightarrow>
                             handle_command e now cmd s =
                               (Inr (), speak ''Hello! How can I help you?'' s))
                        \<and> (\<not> list_ex (str_contains t) [''hello'', ''hi'', ''hey''] \<longrightarrow>
                            (str_contains t ''thank'' \<longrightarrow>
                               handle_command e now cmd s = (Inr (), speak ''You are welcome!'' s))
                          \<and> (\<not> str_contains t ''thank'' \<longrightarrow>
                               handle_command e now cmd s =
                                 (Inr (), speak ''Sorry, I don't have a built-in action for that. I can search the web if you like. Say 'search' followed by your query.'' s)))))))))))"
proof -
  have loop: "(list_ex (str_contains cmd) [''quit'', ''exit'', ''stop assistant''] \<longrightarrow>
            run_command e now cmd s = (Inr Break, speak ''Goodbye!'' s))
       \<and> (\<not> list_ex (str_contains cmd) [''quit'', ''exit'', ''stop assistant''] \<longrightarrow>
            run_command e now cmd s =
              (case handle_command e now cmd s of
                 (Inl ex, s1) \<Rightarrow> (Inl ex, s1)
               | (Inr u, s1) \<Rightarrow> (Inr Continue, s1)))
       \<and> (fst (run_command e now cmd s) = Inr Break \<longleftrightarrow>
            list_ex (str_contains cmd) [''quit'', ''exit'', ''stop assistant''])"
    using assms(1)
    by (auto simp add: run_command_def split: prod.splits sum.splits
        simp del: str_contains.simps list_ex_Cons_iff list_ex_Nil_iff)
  note sf = search_for_contains_search [of t]
  have order: "t \<noteq> [] \<Longrightarrow> ?thesis" if True
    using loop assms(2) sf
    by (simp add: handle_command_def Let_def
        del: str_contains.simps str_startswith.simps list_ex_Cons_iff list_ex_Nil_iff)
  show ?thesis
  proof (cases "t = []")
    case True
    with loop show ?thesis by simp
  next
    case False
    with order show ?thesis by simp
  qed
qed

lemma exit_in_hello: "list_ex (str_contains ''hello please stop assistant'') [''quit'', ''exit'', ''stop assistant'']"
  by code_simp

text \<open>A greeting that also asks to stop.\<close>

theorem exit_phrases_are_checked_first_witness:
  "''hello please stop assistant'' \<noteq> []
   \<and> run_command (example_env [] [] []) 0 ''hello please stop assistant'' initial_state =
       (Inr Break, speak ''Goodbye!'' initial_state)"
proof -
  have n: "''hello please stop assistant'' \<noteq> []" by simp
  from exit_phrases_are_checked_first [OF n refl, of "example_env [] [] []" 0 initial_state]
    exit_in_hello n
  show ?thesis by blast
qed

lemma norm_exit_building:
  "str_strip (str_lower ''remind me in 5 minutes to exit the building'') =
     ''remind me in 5 minutes to exit the building''"
  by code_simp

lemma trigger_exit_building:
  "str_contains ''remind me in 5 minutes to exit the building'' ''remind me in''"
  by code_simp

lemma search_exit_building:
  "re_search remind_pattern ''remind me in 5 minutes to exit the building'' =
     Some [(3, ''exit the building''), (2, ''minutes''), (1, ''5'')]"
  by code_simp

lemma arguments_exit_building:
  "remind_arguments [(3, ''exit the building''), (2, ''minutes''), (1, ''5'')] =
     Inr (5, ''exit the building'')"
  by code_simp

lemma command_exit_building:
  "handle_command e now ''remind me in 5 minutes to exit the building'' s =
     set_reminder_in now 5 ''exit the building'' s"
  by (simp add: handle_command_def handle_remind_in_def Let_def norm_exit_building
      trigger_exit_building search_exit_building arguments_exit_building
      del: str_contains.simps re_search.simps One_nat_def)

lemma exit_in_exit_building:
  "list_ex (str_contains ''remind me in 5 minutes to exit the building'')
     [''quit'', ''exit'', ''stop assistant'']"
  by code_simp

text \<open>
  Against C7 as stated: \<^verbatim>\<open>remind me in 5 minutes to exit the building\<close> matches the
  reminder pattern, and \<^verbatim>\<open>handle_command\<close> would set the reminder; the loop finds
  \<^verbatim>\<open>exit\<close> in it first, says goodbye and stops, and no reminder is set.
\<close>

theorem reminder_text_with_exit_stops_the_loop:
  "handle_command (example_env [] [] []) 0 ''remind me in 5 minutes to exit the building''
       initial_state =
     set_reminder_in 0 5 ''exit the building'' initial_state
   \<and> reminders (snd (set_reminder_in 0 5 ''exit the building'' initial_state)) =
       [(300000000, ''exit the building'')]
   \<and> run_command (example_env [] [] []) 0 ''remind me in 5 minutes to exit the building''
       initial_state =
     (Inr Break, speak ''Goodbye!'' initial_state)
   \<and> reminders (speak ''Goodbye!'' initial_state) = []"
  using exit_in_exit_building
    set_reminder_in_representable [of 5 0 "''exit the building''" initial_state]
  by (simp add: command_exit_building run_command_def initial_state_def speak_def datetime_max_def
      del: str_contains.simps list_ex_Cons_iff list_ex_Nil_iff)

subsection \<open>A reminder command that does not match the pattern\<close>

text \<open>
  C8. If the lowercased and stripped text contains \<^verbatim>\<open>remind me in\<close> and the pattern is
  found nowhere in it, \<^verbatim>\<open>handle_command\<close> speaks the usage hint and does nothing else:
  the list of reminders is unchanged.
\<close>

theorem malformed_reminder_gets_the_hint:
  assumes "t = str_strip (str_lower text)"
    and "str_contains t ''remind me in''"
    and "re_search remind_pattern t = None"
  shows "handle_command e now text s =
           (Inr (), speak ''Please say: remind me in X minutes to do Y.'' s)
       \<and> reminders (snd (handle_command e now text s)) = reminders s
       \<and> spoken (snd (handle_command e now text s)) =
           spoken s @ [''Please say: remind me in X minutes to do Y.'']"
proof -
  have ne: "t \<noteq> []" using assms(2) contains_nonempty by blast
  have "handle_command e now text s = handle_remind_in now t s"
    using assms(1,2) ne by (simp add: handle_command_def Let_def del: str_contains.simps)
  also have "\<dots> = (Inr (), speak ''Please say: remind me in X minutes to do Y.'' s)"
    using assms(3) by (simp add: handle_remind_in_def)
  finally show ?thesis by (simp add: speak_def)
qed

lemma norm_call_mom:
  "str_strip (str_lower ''remind me in ten minutes to call mom'') =
     ''remind me in ten minutes to call mom''"
  by code_simp

lemma trigger_call_mom: "str_contains ''remind me in ten minutes to call mom'' ''remind me in''"
  by code_simp

lemma search_call_mom: "re_search remind_pattern ''remind me in ten minutes to call mom'' = None"
  by code_simp

text \<open>The text \<^verbatim>\<open>remind me in ten minutes to call mom\<close>, whose duration is not a numeral.\<close>

theorem malformed_reminder_gets_the_hint_witness:
  "handle_command (example_env [] [] []) 0 ''remind me in ten minutes to call mom'' initial_state =
     (Inr (), speak ''Please say: remind me in X minutes to do Y.'' initial_state)
   \<and> reminders (snd (handle_command (example_env [] [] []) 0
        ''remind me in ten minutes to call mom'' initial_state)) = []"
  using malformed_reminder_gets_the_hint
    [OF norm_call_mom [symmetric] trigger_call_mom search_call_mom,
     of "example_env [] [] []" 0 initial_state]
  by (simp add: initial_state_def)

subsection \<open>Missing API keys\<close>

lemma weather_rule:
  assumes "t = str_strip (str_lower text)"
    and "\<not> str_contains t ''remind me in''"
    and "\<not> str_startswith t ''set reminder''" and "\<not> str_startswith t ''remind me to''"
    and "str_contains t ''weather''"
  shows "handle_command e now text s = handle_weather e t s"
proof -
  have "t \<noteq> []" using assms(5) contains_nonempty by blast
  then show ?thesis
    using assms by (simp add: handle_command_def Let_def del: str_contains.simps str_startswith.simps)
qed

lemma news_rule:
  assumes "t = str_strip (str_lower text)"
    and "\<not> str_contains t ''remind me in''"
    and "\<not> str_startswith t ''set reminder''" and "\<not> str_startswith t ''remind me to''"
    and "\<not> str_contains t ''weather''"
    and "str_contains t ''news'' \<or> str_contains t ''headlines''"
  shows "handle_command e now text s = handle_news e s"
proof -
  have "t \<noteq> []" using assms(6) contains_nonempty by blast
  then show ?thesis
    using assms by (simp add: handle_command_def Let_def del: str_contains.simps str_startswith.simps)
qed

lemma get_weather_without_key:
  "OPENWEATHER_API_KEY e = [] \<Longrightarrow> get_weather e city s =
     ((None, Some ''OpenWeather API key not set. Set OPENWEATHER_API_KEY environment variable.''), s)"
  by (simp add: get_weather_def)

lemma get_top_news_without_key:
  "NEWSAPI_KEY e = [] \<Longrightarrow> get_top_news e count s =
     ((None, Some ''NewsAPI key not set. Set NEWSAPI_KEY environment variable.''), s)"
  by (simp add: get_top_news_def)

lemma get_weather_with_key:
  "OPENWEATHER_API_KEY e \<noteq> [] \<Longrightarrow> requests (snd (get_weather e city s)) =
     requests s @ [(''https://api.openweathermap.org/data/2.5/weather'',
       [(''q'', city), (''appid'', OPENWEATHER_API_KEY e), (''units'', ''metric'')])]"
  by (simp add: get_weather_def Let_def split: sum.splits prod.splits)

lemma get_top_news_with_key:
  "NEWSAPI_KEY e \<noteq> [] \<Longrightarrow> requests (snd (get_top_news e count s)) =
     requests s @ [(''https://newsapi.org/v2/top-headlines'',
       [(''apiKey'', NEWSAPI_KEY e), (''country'', ''in''), (''pageSize'', str_int count)])]"
  by (simp add: get_top_news_def Let_def split: sum.splits)

lemma key_names:
  "str_contains ''OpenWeather API key not set. Set OPENWEATHER_API_KEY environment variable.''
     ''OPENWEATHER_API_KEY''"
  "str_contains ''NewsAPI key not set. Set NEWSAPI_KEY environment variable.'' ''NEWSAPI_KEY''"
  by code_simp+

text \<open>
  C9. Without the weather key, \<^verbatim>\<open>get_weather\<close> returns no weather and a reason that
  names the variable \<^verbatim>\<open>OPENWEATHER_API_KEY\<close>, and it leaves the state as it is: no
  request is sent. A command that reaches the weather rule is then answered with the apology
  followed by this reason. With a key, on the other hand, a request is always sent, so a
  reason that comes from the network is never given without one. The same holds for
  \<^verbatim>\<open>get_top_news\<close>, the variable \<^verbatim>\<open>NEWSAPI_KEY\<close> and the news rule.
\<close>

theorem missing_key_is_reported_without_request:
  assumes "t = str_strip (str_lower text)"
    and "\<not> str_contains t ''remind me in''"
    and "\<not> str_startswith t ''set reminder''" and "\<not> str_startswith t ''remind me to''"
  shows "(OPENWEATHER_API_KEY e = [] \<longrightarrow>
      get_weather e city s =
        ((None, Some ''OpenWeather API key not set. Set OPENWEATHER_API_KEY environment variable.''), s)
    \<and> (str_contains t ''weather'' \<longrightarrow>
        handle_command e now text s =
          (Inr (), speak (''Sorry, I couldn't fetch weather. ''
             @ ''OpenWeather API key not set. Set OPENWEATHER_API_KEY environment variable.'') s)))
   \<and> (OPENWEATHER_API_KEY e \<noteq> [] \<longrightarrow>
      requests (snd (get_weather e city s)) =
        requests s @ [(''https://api.openweathermap.org/data/2.5/weather'',
          [(''q'', city), (''appid'', OPENWEATHER_API_KEY e), (''units'', ''metric'')])])
   \<and> (NEWSAPI_KEY e = [] \<longrightarrow>
      get_top_news e count s =
        ((None, Some ''NewsAPI key not set. Set NEWSAPI_KEY environment variable.''), s)
    \<and> (\<not> str_contains t ''weather'' \<and> (str_contains t ''news'' \<or> str_contains t ''headlines'') \<longrightarrow>
        handle_command e now text s =
          (Inr (), speak (''Sorry, can't fetch news: ''
             @ ''NewsAPI key not set. Set NEWSAPI_KEY environment variable.'') s)))
   \<and> (NEWSAPI_KEY e \<noteq> [] \<longrightarrow>
      requests (snd (get_top_news e count s)) =
        requests s @ [(''https://newsapi.org/v2/top-headlines'',
          [(''apiKey'', NEWSAPI_KEY e), (''country'', ''in''), (''pageSize'', str_int count)])])
   \<and> str_contains ''OpenWeather API key not set. Set OPENWEATHER_API_KEY environment variable.''
        ''OPENWEATHER_API_KEY''
   \<and> str_contains ''NewsAPI key not set. Set NEWSAPI_KEY environment variable.'' ''NEWSAPI_KEY''"
proof -
  have hw: "handle_command e now text s =
        (Inr (), speak (''Sorry, I couldn't fetch weather. ''
           @ ''OpenWeather API key not set. Set OPENWEATHER_API_KEY environment variable.'') s)"
    if "OPENWEATHER_API_KEY e = []" and "str_contains t ''weather''"
    using weather_rule [OF assms that(2), of e now s] get_weather_without_key [OF that(1)]
    by (simp add: handle_weather_def Let_def)
  have hn: "handle_command e now text s =
        (Inr (), speak (''Sorry, can't fetch news: ''
           @ ''NewsAPI key not set. Set NEWSAPI_KEY environment variable.'') s)"
    if "NEWSAPI_KEY e = []" and "\<not> str_contains t ''weather''"
      and "str_contains t ''news'' \<or> str_contains t ''headlines''"
    using news_rule [OF assms that(2,3), of e now s] get_top_news_without_key [OF that(1)]
    by (simp add: handle_news_def)
  show ?thesis
    using hw hn get_weather_without_key get_top_news_without_key get_weather_with_key
      get_top_news_with_key key_names
    by blast
qed

lemma norm_weather: "str_strip (str_lower ''weather'') = ''weather''"
  by code_simp

lemma rules_weather:
  "\<not> str_contains ''weather'' ''remind me in''"
  "\<not> str_startswith ''weather'' ''set reminder''"
  "\<not> str_startswith ''weather'' ''remind me to''"
  "str_contains ''weather'' ''weather''"
  by code_simp+

text \<open>The command \<^verbatim>\<open>weather\<close> with no weather key and the news key \<^verbatim>\<open>k\<close>.\<close>

theorem missing_key_is_reported_without_request_witness:
  "get_weather (example_env [] ''k'' []) DEFAULT_CITY initial_state =
     ((None, Some ''OpenWeather API key not set. Set OPENWEATHER_API_KEY environment variable.''),
      initial_state)
   \<and> handle_command (example_env [] ''k'' []) 0 ''weather'' initial_state =
       (Inr (), speak (''Sorry, I couldn't fetch weather. ''
          @ ''OpenWeather API key not set. Set OPENWEATHER_API_KEY environment variable.'')
          initial_state)
   \<and> requests (snd (get_top_news (example_env [] ''k'' []) 5 initial_state)) =
       requests initial_state @ [(''https://newsapi.org/v2/top-headlines'',
          [(''apiKey'', ''k''), (''country'', ''in''), (''pageSize'', str_int 5)])]"
proof -
  let ?e = "example_env [] ''k'' []"
  have k: "OPENWEATHER_API_KEY ?e = []" "NEWSAPI_KEY ?e \<noteq> []" "NEWSAPI_KEY ?e = ''k''"
    by (simp_all add: example_env_def)
  from missing_key_is_reported_without_request
    [OF norm_weather [symmetric] rules_weather(1-3), of ?e DEFAULT_CITY initial_state 0 5]
    k rules_weather(4)
  show ?thesis by simp
qed

subsection \<open>Web search\<close>



lemma listens_speak [simp]: "listens (speak t s) = listens s"
  by (simp add: speak_def)

lemma listens_launch_search [simp]: "listens (launch_search e q s) = listens s"
  by (simp add: launch_search_def Let_def)









end
